theory Spec2Isabelle
  imports Complex_Main "HOL-Library.Log_Nat" "HOL-Library.Code_Target_Nat"
begin

section \<open>The route table of the core module\<close>

text \<open>
  \<^verbatim>\<open>core.module.ts\<close> builds \<^verbatim>\<open>ROUTES\<close> from an array literal of
  \<^verbatim>\<open>{ component, path }\<close> objects and maps every entry to a copy that also carries
  \<^verbatim>\<open>canActivate: [AuthenticatedGuard]\<close>. The component classes are references; they
  are an enumeration here.
\<close>

datatype component_class =
    DashboardComponent
  | AsnDetailComponent
  | AsnsTableComponent
  | DivisionsTableComponent
  | DivisionDetailComponent
  | RegionsTableComponent
  | RegionDetailComponent
  | UsersComponent
  | UserDetailsComponent
  | CDNDetailComponent
  | ServersTableComponent
  | ServerDetailsComponent
  | DeliveryserviceComponent
  | InvalidationJobsComponent
  | CurrentuserComponent
  | NewDeliveryServiceComponent
  | CacheGroupTableComponent
  | CacheGroupDetailsComponent
  | TenantsComponent
  | ChangeLogsComponent
  | TenantDetailsComponent
  | PhysLocDetailComponent
  | PhysLocTableComponent
  | CoordinateDetailComponent
  | CoordinatesTableComponent
  | TypesTableComponent
  | TypeDetailComponent
  | ISOGenerationFormComponent
  | ProfileDetailComponent
  | ProfileTableComponent

datatype guard = AuthenticatedGuard

record route =
  component :: component_class
  path :: string
  canActivate :: "guard list"

text \<open>The array literal, before \<^verbatim>\<open>.map\<close>: each entry has a component and a path only.\<close>

definition ROUTES_literal :: "(component_class \<times> string) list" where
  "ROUTES_literal =
    [ (DashboardComponent, ''''),
      (AsnDetailComponent, ''asns/:id''),
      (AsnsTableComponent, ''asns''),
      (DivisionsTableComponent, ''divisions''),
      (DivisionDetailComponent, ''divisions/:id''),
      (RegionsTableComponent, ''regions''),
      (RegionDetailComponent, ''regions/:id''),
      (UsersComponent, ''users''),
      (UserDetailsComponent, ''users/:id''),
      (CDNDetailComponent, ''cdns/:id''),
      (ServersTableComponent, ''servers''),
      (ServerDetailsComponent, ''servers/:id''),
      (DeliveryserviceComponent, ''deliveryservice/:id''),
      (InvalidationJobsComponent, ''deliveryservice/:id/invalidation-jobs''),
      (CurrentuserComponent, ''me''),
      (NewDeliveryServiceComponent, ''new.Delivery.Service''),
      (CacheGroupTableComponent, ''cache-groups''),
      (CacheGroupDetailsComponent, ''cache-groups/:id''),
      (TenantsComponent, ''tenants''),
      (ChangeLogsComponent, ''change-logs''),
      (TenantDetailsComponent, ''tenants/:id''),
      (PhysLocDetailComponent, ''phys-locs/:id''),
      (PhysLocTableComponent, ''phys-locs''),
      (CoordinateDetailComponent, ''coordinates/:id''),
      (CoordinatesTableComponent, ''coordinates''),
      (TypesTableComponent, ''types''),
      (TypeDetailComponent, ''types/:id''),
      (ISOGenerationFormComponent, ''iso-gen''),
      (ProfileDetailComponent, ''profiles/:id''),
      (ProfileTableComponent, ''profiles'') ]"

text \<open>\<^verbatim>\<open>.map(r => ({...r, canActivate: [AuthenticatedGuard]}))\<close>\<close>

definition ROUTES :: "route list" where
  "ROUTES =
     map (\<lambda>(c, p). \<lparr>component = c, path = p, canActivate = [AuthenticatedGuard]\<rparr>)
       ROUTES_literal"

text \<open>The components that the table registers under a given path, in table order.\<close>

definition components_at :: "string \<Rightarrow> component_class list" where
  "components_at p = map component (filter (\<lambda>r. path r = p) ROUTES)"

section \<open>The JavaScript values the component computes with\<close>

text \<open>
  A JavaScript Number is \<^verbatim>\<open>NaN\<close>, an infinity, or a finite binary64 value, which
  \<open>MV\<close> holds as the rational number it denotes. Negative zero is not told apart from
  zero (both print as \<^verbatim>\<open>0\<close> and neither is \<^verbatim>\<open>NaN\<close>). Strings are lists of
  8-bit characters.
\<close>

datatype jsnum = NaN | PosInfinity | NegInfinity | MV rat

text \<open>\<^verbatim>\<open>Number.isNaN\<close>\<close>

definition isNaN :: "jsnum \<Rightarrow> bool" where
  "isNaN x = (x = NaN)"

text \<open>
  The Number value of a real number: the nearest binary64 value, ties to the even
  significand, an infinity from \<open>2^1024 - 2^970\<close> on. \<open>binaryExponent a\<close> is the
  \<open>e\<close> with \<open>2^e \<le> a < 2^(e+1)\<close>; the significand has 53 bits, and below
  \<open>2^-1022\<close> the spacing stays \<open>2^-1074\<close>.
\<close>

definition pow2 :: "int \<Rightarrow> rat" where
  "pow2 k = (if 0 \<le> k then 2 ^ nat k else 1 / 2 ^ nat (- k))"

definition binaryExponent :: "rat \<Rightarrow> int" where
  "binaryExponent a =
     (let e0 = bitlen (fst (quotient_of a)) - bitlen (snd (quotient_of a))
      in if pow2 e0 \<le> a then e0 else e0 - 1)"

definition roundTiesToEven :: "rat \<Rightarrow> int" where
  "roundTiesToEven m =
     (let n = \<lfloor>m\<rfloor>; f = m - of_int n
      in if f < 1 / 2 then n else if 1 / 2 < f then n + 1 else if even n then n else n + 1)"

definition binary64 :: "rat \<Rightarrow> jsnum" where
  "binary64 r =
     (if r = 0 then MV 0
      else
        let a = \<bar>r\<bar>;
            q = max (binaryExponent a - 52) (- 1074);
            v = of_int (roundTiesToEven (a / pow2 q)) * pow2 q
        in if pow2 1024 \<le> v then (if r < 0 then NegInfinity else PosInfinity)
           else MV (if r < 0 then - v else v))"

text \<open>
  White space and line terminators that \<^verbatim>\<open>parseInt\<close> and \<^verbatim>\<open>Number\<close> trim:
  TAB, LF, VT, FF, CR, SP and NBSP (the ones below code 256).
\<close>

definition isWhiteSpace :: "char \<Rightarrow> bool" where
  "isWhiteSpace c = (of_char c \<in> set [9, 10, 11, 12, 13, 32, 160 :: nat])"

text \<open>Digits of radix \<open>R\<close> (2 to 36): \<^verbatim>\<open>0-9\<close>, then \<^verbatim>\<open>a-z\<close> or \<^verbatim>\<open>A-Z\<close>.\<close>

definition isDigit :: "nat \<Rightarrow> char \<Rightarrow> bool" where
  "isDigit R c =
     (let n = (of_char c :: nat) in
        (48 \<le> n \<and> n < 48 + min R 10)
      \<or> (97 \<le> n \<and> n + 10 < 97 + R)
      \<or> (65 \<le> n \<and> n + 10 < 65 + R))"

definition digitValue :: "char \<Rightarrow> nat" where
  "digitValue c =
     (let n = (of_char c :: nat) in
      if 97 \<le> n then n - 87 else if 65 \<le> n then n - 55 else n - 48)"

definition digitsValue :: "nat \<Rightarrow> string \<Rightarrow> nat" where
  "digitsValue R ds = foldl (\<lambda>a c. R * a + digitValue c) 0 ds"

definition trimStart :: "string \<Rightarrow> string" where
  "trimStart s = dropWhile isWhiteSpace s"

definition trimEnd :: "string \<Rightarrow> string" where
  "trimEnd s = rev (dropWhile isWhiteSpace (rev s))"

text \<open>
  \<^verbatim>\<open>parseInt(s, 10)\<close>: skip leading white space, read an optional sign, then the
  longest run of decimal digits; \<^verbatim>\<open>NaN\<close> when that run is empty. Whatever follows
  the digits is ignored. The result is the Number value of the signed integer read.
\<close>

definition parseInt10 :: "string \<Rightarrow> jsnum" where
  "parseInt10 s =
     (let S = trimStart s;
          neg = (case S of c # _ \<Rightarrow> c = CHR ''-'' | [] \<Rightarrow> False);
          S1 = (case S of c # r \<Rightarrow> if c = CHR ''+'' \<or> c = CHR ''-'' then r else S
                | [] \<Rightarrow> S);
          Z = takeWhile (isDigit 10) S1
      in if Z = [] then NaN
         else binary64 (if neg then - of_nat (digitsValue 10 Z) else of_nat (digitsValue 10 Z)))"

text \<open>
  \<^verbatim>\<open>Number(s)\<close> on a string: the whole trimmed string has to be a numeric literal.
  The empty string is 0; \<^verbatim>\<open>0x\<close>, \<^verbatim>\<open>0o\<close> and \<^verbatim>\<open>0b\<close> introduce unsigned
  integers of radix 16, 8 and 2; otherwise an optional sign is followed by
  \<^verbatim>\<open>Infinity\<close> or by decimal digits with an optional fraction and exponent. The
  result is the Number value of the literal's mathematical value (for literals of more
  than 20 significant digits the language leaves the last bit to the implementation;
  this is the correctly rounded value).
\<close>

definition nonDecimalIntegerLiteral :: "string \<Rightarrow> nat option" where
  "nonDecimalIntegerLiteral s =
     (case s of
        z # x # ds \<Rightarrow>
          if z \<noteq> CHR ''0'' \<or> ds = [] then None
          else if (x = CHR ''x'' \<or> x = CHR ''X'') \<and> list_all (isDigit 16) ds
            then Some (digitsValue 16 ds)
          else if (x = CHR ''o'' \<or> x = CHR ''O'') \<and> list_all (isDigit 8) ds
            then Some (digitsValue 8 ds)
          else if (x = CHR ''b'' \<or> x = CHR ''B'') \<and> list_all (isDigit 2) ds
            then Some (digitsValue 2 ds)
          else None
      | _ \<Rightarrow> None)"

definition exponentPart :: "string \<Rightarrow> int option" where
  "exponentPart s =
     (case s of
        [] \<Rightarrow> Some 0
      | e # r \<Rightarrow>
          if e = CHR ''e'' \<or> e = CHR ''E'' then
            (let neg = (case r of c # _ \<Rightarrow> c = CHR ''-'' | [] \<Rightarrow> False);
                 ds = (case r of c # t \<Rightarrow> if c = CHR ''+'' \<or> c = CHR ''-'' then t else r
                       | [] \<Rightarrow> r)
             in if ds \<noteq> [] \<and> list_all (isDigit 10) ds
                then Some (if neg then - int (digitsValue 10 ds) else int (digitsValue 10 ds))
                else None)
          else None)"

definition scale10 :: "rat \<Rightarrow> int \<Rightarrow> rat" where
  "scale10 m e = (if 0 \<le> e then m * 10 ^ nat e else m / 10 ^ nat (- e))"

definition strUnsignedDecimalLiteral :: "string \<Rightarrow> jsnum" where
  "strUnsignedDecimalLiteral u =
     (if u = ''Infinity'' then PosInfinity
      else
        let ip = takeWhile (isDigit 10) u;
            r1 = dropWhile (isDigit 10) u;
            dot = (case r1 of c # _ \<Rightarrow> c = CHR ''.'' | [] \<Rightarrow> False);
            fp = (if dot then takeWhile (isDigit 10) (tl r1) else []);
            r2 = (if dot then dropWhile (isDigit 10) (tl r1) else r1)
        in if ip = [] \<and> fp = [] then NaN
           else (case exponentPart r2 of
                   None \<Rightarrow> NaN
                 | Some e \<Rightarrow>
                     binary64
                       (scale10 (of_nat (digitsValue 10 (ip @ fp))) (e - int (length fp)))))"

definition negate :: "jsnum \<Rightarrow> jsnum" where
  "negate x =
     (case x of NaN \<Rightarrow> NaN | PosInfinity \<Rightarrow> NegInfinity | NegInfinity \<Rightarrow> PosInfinity
      | MV r \<Rightarrow> MV (- r))"

definition strDecimalLiteral :: "string \<Rightarrow> jsnum" where
  "strDecimalLiteral s =
     (case s of
        c # r \<Rightarrow>
          if c = CHR ''+'' then strUnsignedDecimalLiteral r
          else if c = CHR ''-'' then negate (strUnsignedDecimalLiteral r)
          else strUnsignedDecimalLiteral s
      | [] \<Rightarrow> NaN)"

definition Number :: "string \<Rightarrow> jsnum" where
  "Number s =
     (let t = trimEnd (trimStart s) in
      if t = [] then MV 0
      else (case nonDecimalIntegerLiteral t of
              Some n \<Rightarrow> binary64 (of_nat n)
            | None \<Rightarrow> strDecimalLiteral t))"

section \<open>Profiles, effects and the world outside the component\<close>

text \<open>
  \<^verbatim>\<open>ResponseProfile\<close> with the fields the component writes. The fields
  \<^verbatim>\<open>id\<close>, \<^verbatim>\<open>name\<close> and \<^verbatim>\<open>type\<close> are \<open>p_id\<close>, \<open>p_name\<close> and \<open>p_type\<close> here.
  A \<^verbatim>\<open>Date\<close> is its time value in milliseconds.
\<close>

datatype ProfileType =
    ATS_PROFILE | TR_PROFILE | TM_PROFILE | TS_PROFILE | TP_PROFILE | INFLUXDB_PROFILE
  | RIAK_PROFILE | SPLUNK_PROFILE | DS_PROFILE | ORG_PROFILE | KAFKA_PROFILE
  | LOGSTASH_PROFILE | ES_PROFILE | UNK_PROFILE | GROVE_PROFILE

type_synonym Date = int

record ResponseProfile =
  cdn :: jsnum
  cdnName :: string
  description :: string
  p_id :: jsnum
  lastUpdated :: Date
  p_name :: string
  routingDisabled :: bool
  p_type :: ProfileType

text \<open>\<^verbatim>\<open>ResponseCDN\<close> is only stored by the component, never inspected.\<close>

typedecl ResponseCDN

text \<open>
  What a rejected promise or a \<^verbatim>\<open>throw\<close> carries: an \<^verbatim>\<open>Error\<close> with its
  message, the \<^verbatim>\<open>TypeError\<close> of reading a property of \<^verbatim>\<open>undefined\<close>, or the
  failure an HTTP call was rejected with.
\<close>

datatype error = Error string | TypeError | Rejected string

text \<open>
  Everything observable that the code does, in the order it does it: calls on the form
  event, calls of the inherited \<^verbatim>\<open>APIService\<close> methods (path, query parameters or
  body), the call of \<^verbatim>\<open>CDNService.getCDNs\<close>, the header title, the console, the dialog
  (message and title), the router, and a rejection that nothing handles.
\<close>

datatype effect =
    PreventDefault
  | StopPropagation
  | CallGetCDNs
  | ApiGet string "(string \<times> string) list option"
  | ApiPost string "ResponseProfile option"
  | ApiPut string ResponseProfile
  | ApiDelete string
  | HeaderTitle string
  | ConsoleError string
  | DialogOpen string string
  | Navigate "string list"
  | Unhandled error

text \<open>
  What the code receives from outside these files, as parameters: the rendering of a
  finite Number as a string, the clock read by \<^verbatim>\<open>new Date()\<close>, the result of
  \<^verbatim>\<open>CDNService.getCDNs\<close>, the results of the \<^verbatim>\<open>get\<close>, \<^verbatim>\<open>post\<close>, \<^verbatim>\<open>put\<close>
  and \<^verbatim>\<open>delete\<close> methods inherited from \<^verbatim>\<open>APIService\<close> (\<open>Inl\<close> is a rejected
  promise), and what the dialog's \<^verbatim>\<open>afterClosed()\<close> emits: nothing, or a result of
  which only the truthiness is used.
\<close>

record world =
  numberToString :: "rat \<Rightarrow> string"
  clock_now :: Date
  cdnService_getCDNs :: "error + ResponseCDN list"
  api_get :: "string \<Rightarrow> (string \<times> string) list option \<Rightarrow> error + ResponseProfile list"
  api_post :: "string \<Rightarrow> ResponseProfile option \<Rightarrow> error + ResponseProfile"
  api_put :: "string \<Rightarrow> ResponseProfile \<Rightarrow> error + ResponseProfile"
  api_delete :: "string \<Rightarrow> error + ResponseProfile"
  dialog_afterClosed :: "bool option"

text \<open>\<^verbatim>\<open>String(n)\<close> and \<^verbatim>\<open>${n}\<close> for a Number \<open>n\<close>.\<close>

definition String_of_number :: "world \<Rightarrow> jsnum \<Rightarrow> string" where
  "String_of_number w n =
     (case n of
        NaN \<Rightarrow> ''NaN''
      | PosInfinity \<Rightarrow> ''Infinity''
      | NegInfinity \<Rightarrow> ''-Infinity''
      | MV r \<Rightarrow> numberToString w r)"

section \<open>ProfileService\<close>

text \<open>
  Every method returns the calls it made and the value its promise settles with.
  \<^verbatim>\<open>r[0]\<close> of an empty array is \<^verbatim>\<open>undefined\<close>, which is \<open>None\<close>.
\<close>

datatype idOrName = IdNumber jsnum | NameString string

datatype profiles = OneProfile "ResponseProfile option" | AllProfiles "ResponseProfile list"

text \<open>The block under \<^verbatim>\<open>if (idOrName !== undefined)\<close>.\<close>

definition getProfiles_by ::
  "world \<Rightarrow> idOrName \<Rightarrow> effect list \<times> (error + ResponseProfile option)" where
  "getProfiles_by w idOrName =
     (let path = ''profiles'';
          params = (case idOrName of
                      IdNumber n \<Rightarrow> [(''id'', String_of_number w n)]
                    | NameString s \<Rightarrow> [(''name'', s)])
      in ([ApiGet path (Some params)],
          (case api_get w path (Some params) of
             Inl e \<Rightarrow> Inl e
           | Inr r \<Rightarrow> Inr (case r of [] \<Rightarrow> None | x # _ \<Rightarrow> Some x))))"

definition getProfiles ::
  "world \<Rightarrow> idOrName option \<Rightarrow> effect list \<times> (error + profiles)" where
  "getProfiles w arg =
     (case arg of
        Some idOrName \<Rightarrow>
          (case getProfiles_by w idOrName of
             (es, Inl e) \<Rightarrow> (es, Inl e)
           | (es, Inr v) \<Rightarrow> (es, Inr (OneProfile v)))
      | None \<Rightarrow>
          ([ApiGet ''profiles'' None],
           (case api_get w ''profiles'' None of
              Inl e \<Rightarrow> Inl e
            | Inr r \<Rightarrow> Inr (AllProfiles r))))"

definition createProfile ::
  "world \<Rightarrow> ResponseProfile option \<Rightarrow> effect list \<times> (error + ResponseProfile)" where
  "createProfile w profile = ([ApiPost ''profiles'' profile], api_post w ''profiles'' profile)"

text \<open>\<^verbatim>\<open>profile.id\<close> of \<^verbatim>\<open>undefined\<close> throws before any request is made.\<close>

definition updateProfile ::
  "world \<Rightarrow> ResponseProfile option \<Rightarrow> effect list \<times> (error + ResponseProfile)" where
  "updateProfile w profile =
     (case profile of
        None \<Rightarrow> ([], Inl TypeError)
      | Some p \<Rightarrow>
          (let path = ''profiles/'' @ String_of_number w (p_id p)
           in ([ApiPut path p], api_put w path p)))"

datatype profileId = ByNumber jsnum | ByProfile ResponseProfile

definition deleteProfile ::
  "world \<Rightarrow> profileId \<Rightarrow> effect list \<times> (error + ResponseProfile)" where
  "deleteProfile w profileId =
     (let i = (case profileId of ByNumber n \<Rightarrow> n | ByProfile p \<Rightarrow> p_id p);
          path = ''profiles/'' @ String_of_number w i
      in ([ApiDelete path], api_delete w path))"

section \<open>ProfileDetailComponent\<close>

text \<open>
  The mutable fields of the component. \<^verbatim>\<open>profile\<close> and \<^verbatim>\<open>cdns\<close> are declared
  without an initial value, so they are \<^verbatim>\<open>undefined\<close> (\<open>None\<close>) until assigned.
\<close>

record component_state =
  new :: bool
  profile :: "ResponseProfile option"
  cdns :: "ResponseCDN list option"

definition constructed :: component_state where
  "constructed = \<lparr>new = False, profile = None, cdns = None\<rparr>"

text \<open>
  A run of a method: the effects in order, the component afterwards, and the error its
  promise is rejected with, if any.
\<close>

record outcome =
  effects :: "effect list"
  comp :: component_state
  thrown :: "error option"

definition missing_id_message :: string where
  "missing_id_message = ''missing required route parameter '' @ [CHR 0x27] @ ''id'' @ [CHR 0x27]"

text \<open>
  The template \<^verbatim>\<open>${{ id }}\<close> renders an object literal, hence \<^verbatim>\<open>[object Object]\<close>.
\<close>

definition non_number_message :: string where
  "non_number_message =
     ''route parameter '' @ [CHR 0x27] @ ''id'' @ [CHR 0x27]
       @ '' was non-number:  [object Object]''"

definition new_profile :: "world \<Rightarrow> ResponseProfile" where
  "new_profile w =
     \<lparr> cdn = MV (- 1),
       cdnName = [],
       description = [],
       p_id = MV (- 1),
       lastUpdated = clock_now w,
       p_name = [],
       routingDisabled = False,
       p_type = ATS_PROFILE \<rparr>"

text \<open>\<open>idParam\<close> is \<^verbatim>\<open>this.route.snapshot.paramMap.get("id")\<close>; \<open>None\<close> is \<^verbatim>\<open>null\<close>.\<close>

definition ngOnInit :: "world \<Rightarrow> string option \<Rightarrow> component_state \<Rightarrow> outcome" where
  "ngOnInit w idParam c =
     (case cdnService_getCDNs w of
        Inl e \<Rightarrow> \<lparr>effects = [CallGetCDNs], comp = c, thrown = Some e\<rparr>
      | Inr cs \<Rightarrow>
          (let c1 = c\<lparr>cdns := Some cs\<rparr> in
           case idParam of
             None \<Rightarrow>
               \<lparr>effects = [CallGetCDNs], comp = c1, thrown = Some (Error missing_id_message)\<rparr>
           | Some i \<Rightarrow>
               if i = ''new'' then
                 \<lparr>effects = [CallGetCDNs, HeaderTitle ''New Profile''],
                  comp = c1\<lparr>new := True, profile := Some (new_profile w)\<rparr>,
                  thrown = None\<rparr>
               else if isNaN (parseInt10 i) then
                 \<lparr>effects = [CallGetCDNs], comp = c1, thrown = Some (Error non_number_message)\<rparr>
               else
                 (case getProfiles_by w (IdNumber (Number i)) of
                    (es, Inl e) \<Rightarrow>
                      \<lparr>effects = CallGetCDNs # es, comp = c1, thrown = Some e\<rparr>
                  | (es, Inr None) \<Rightarrow>
                      \<lparr>effects = CallGetCDNs # es, comp = c1\<lparr>profile := None\<rparr>,
                       thrown = Some TypeError\<rparr>
                  | (es, Inr (Some p)) \<Rightarrow>
                      \<lparr>effects = CallGetCDNs # es @ [HeaderTitle (''Profile: '' @ p_name p)],
                       comp = c1\<lparr>profile := Some p\<rparr>,
                       thrown = None\<rparr>)))"

definition submit :: "world \<Rightarrow> component_state \<Rightarrow> outcome" where
  "submit w c =
     (if new c then
        (case createProfile w (profile c) of
           (es, Inl e) \<Rightarrow>
             \<lparr>effects = [PreventDefault, StopPropagation] @ es, comp = c, thrown = Some e\<rparr>
         | (es, Inr r) \<Rightarrow>
             \<lparr>effects = [PreventDefault, StopPropagation] @ es,
              comp = c\<lparr>profile := Some r, new := False\<rparr>,
              thrown = None\<rparr>)
      else
        (case updateProfile w (profile c) of
           (es, Inl e) \<Rightarrow>
             \<lparr>effects = [PreventDefault, StopPropagation] @ es, comp = c, thrown = Some e\<rparr>
         | (es, Inr r) \<Rightarrow>
             \<lparr>effects = [PreventDefault, StopPropagation] @ es,
              comp = c\<lparr>profile := Some r\<rparr>,
              thrown = None\<rparr>))"

text \<open>
  The function subscribed to \<^verbatim>\<open>ref.afterClosed()\<close>. Nothing awaits or catches the
  promise chain it starts, so a failure in it is an unhandled rejection.
\<close>

definition afterClosed_subscriber :: "world \<Rightarrow> component_state \<Rightarrow> bool \<Rightarrow> effect list" where
  "afterClosed_subscriber w c result =
     (if result then
        (case profile c of
           None \<Rightarrow> [Unhandled TypeError]
         | Some p \<Rightarrow>
             (case deleteProfile w (ByNumber (p_id p)) of
                (es, Inl e) \<Rightarrow> es @ [Unhandled e]
              | (es, Inr _) \<Rightarrow> es @ [Navigate [''/core/profiles'']]))
      else [])"

text \<open>
  \<^verbatim>\<open>deleteType\<close> returns once the dialog is open and the subscription is made; the
  subscriber runs when the dialog closes. The outcome lists the effects of both, in the
  order they happen; the component is the same at both times.
\<close>

definition deleteType :: "world \<Rightarrow> component_state \<Rightarrow> outcome" where
  "deleteType w c =
     (if new c then
        \<lparr>effects = [ConsoleError ''Unable to delete new type''], comp = c, thrown = None\<rparr>
      else
        (case profile c of
           None \<Rightarrow> \<lparr>effects = [], comp = c, thrown = Some TypeError\<rparr>
         | Some p \<Rightarrow>
             \<lparr>effects =
                DialogOpen
                  (''Are you sure to delete Profile '' @ p_name p @ '' with id ''
                     @ String_of_number w (p_id p) @ ''?'')
                  ''Confirm Delete''
                # (case dialog_afterClosed w of
                     None \<Rightarrow> []
                   | Some result \<Rightarrow> afterClosed_subscriber w c result),
              comp = c,
              thrown = None\<rparr>))"

section \<open>Kinds of effects\<close>

fun is_fetch :: "effect \<Rightarrow> bool" where
  "is_fetch (ApiGet _ _) = True"
| "is_fetch _ = False"

fun is_delete :: "effect \<Rightarrow> bool" where
  "is_delete (ApiDelete _) = True"
| "is_delete _ = False"

fun is_request :: "effect \<Rightarrow> bool" where
  "is_request (ApiGet _ _) = True"
| "is_request (ApiPost _ _) = True"
| "is_request (ApiPut _ _) = True"
| "is_request (ApiDelete _) = True"
| "is_request CallGetCDNs = True"
| "is_request _ = False"

fun is_navigation :: "effect \<Rightarrow> bool" where
  "is_navigation (Navigate _) = True"
| "is_navigation _ = False"

fun is_dialog :: "effect \<Rightarrow> bool" where
  "is_dialog (DialogOpen _ _) = True"
| "is_dialog _ = False"

section \<open>Example worlds\<close>

text \<open>Decimal digits of a natural number, and with them a rendering of integers.\<close>

fun decimal :: "nat \<Rightarrow> string" where
  "decimal n =
     (if n < 10 then [''0123456789'' ! n]
      else decimal (n div 10) @ [''0123456789'' ! (n mod 10)])"

definition render_integer :: "rat \<Rightarrow> string" where
  "render_integer r = (if r < 0 then ''-'' else []) @ decimal (nat \<bar>\<lfloor>r\<rfloor>\<bar>)"

definition example_profile :: ResponseProfile where
  "example_profile =
     \<lparr> cdn = MV 2,
       cdnName = ''ALL'',
       description = ''test'',
       p_id = MV 7,
       lastUpdated = 0,
       p_name = ''GLOBAL'',
       routingDisabled = False,
       p_type = UNK_PROFILE \<rparr>"

text \<open>
  A server that holds \<open>example_profile\<close> under id 7: a query for id 7 returns it, any
  other query an empty array; a POST or PUT returns the body it was sent (with id 7 when
  created); the dialog is confirmed.
\<close>

definition example_world :: world where
  "example_world =
     \<lparr> numberToString = render_integer,
       clock_now = 1000,
       cdnService_getCDNs = Inr [],
       api_get = (\<lambda>p q. if q = Some [(''id'', ''7'')] \<or> q = None then Inr [example_profile]
                         else Inr []),
       api_post = (\<lambda>p b. case b of None \<Rightarrow> Inl (Rejected ''400'')
                           | Some x \<Rightarrow> Inr (x\<lparr>p_id := MV 7\<rparr>)),
       api_put = (\<lambda>p b. Inr b),
       api_delete = (\<lambda>p. Inr example_profile),
       dialog_afterClosed = Some True \<rparr>"

text \<open>
  A server that holds a profile under id 9007199254740992 and none under any other id.
\<close>

definition rounding_world :: world where
  "rounding_world =
     \<lparr> numberToString = render_integer,
       clock_now = 1000,
       cdnService_getCDNs = Inr [],
       api_get = (\<lambda>p q. if q = Some [(''id'', ''9007199254740992'')]
                         then Inr [example_profile\<lparr>p_id := MV 9007199254740992\<rparr>]
                         else Inr []),
       api_post = (\<lambda>p b. Inl (Rejected ''400'')),
       api_put = (\<lambda>p b. Inr b),
       api_delete = (\<lambda>p. Inl (Rejected ''404'')),
       dialog_afterClosed = None \<rparr>"

text \<open>The component after \<^verbatim>\<open>ngOnInit\<close> for a new and for a loaded profile.\<close>

definition example_new :: component_state where
  "example_new = \<lparr>new = True, profile = Some (new_profile example_world), cdns = Some []\<rparr>"

definition example_existing :: component_state where
  "example_existing = \<lparr>new = False, profile = Some example_profile, cdns = Some []\<rparr>"

section \<open>Properties of the route table\<close>

lemma ROUTES_guarded_all:
  "r \<in> set ROUTES \<Longrightarrow> canActivate r = [AuthenticatedGuard]"
  by (auto simp: ROUTES_def)

lemma length_ROUTES: "length ROUTES = 30"
  by (simp add: ROUTES_def ROUTES_literal_def)

text \<open>
  Claim C7. The route table maps the path \<^verbatim>\<open>profiles\<close> to ProfileTableComponent,
  \<^verbatim>\<open>profiles/:id\<close> to ProfileDetailComponent and \<^verbatim>\<open>cdns/:id\<close> to
  CDNDetailComponent (each path occurs once, so the mapping is unambiguous), and
  every route of the table has AuthenticatedGuard in its \<^verbatim>\<open>canActivate\<close> list.
\<close>

theorem ROUTES_profiles_cdns_guarded:
  "components_at ''profiles'' = [ProfileTableComponent]
   \<and> components_at ''profiles/:id'' = [ProfileDetailComponent]
   \<and> components_at ''cdns/:id'' = [CDNDetailComponent]
   \<and> (\<forall>r \<in> set ROUTES. AuthenticatedGuard \<in> set (canActivate r))"
proof -
  have a: "components_at ''profiles'' = [ProfileTableComponent]"
    by (simp add: components_at_def ROUTES_def ROUTES_literal_def)
  have b: "components_at ''profiles/:id'' = [ProfileDetailComponent]"
    by (simp add: components_at_def ROUTES_def ROUTES_literal_def)
  have c: "components_at ''cdns/:id'' = [CDNDetailComponent]"
    by (simp add: components_at_def ROUTES_def ROUTES_literal_def)
  have d: "\<forall>r \<in> set ROUTES. AuthenticatedGuard \<in> set (canActivate r)"
    by (simp add: ROUTES_guarded_all)
  from a b c d show ?thesis by blast
qed

theorem ROUTES_profiles_cdns_guarded_witness:
  "ROUTES ! 28 \<in> set ROUTES
   \<and> path (ROUTES ! 28) = ''profiles/:id''
   \<and> AuthenticatedGuard \<in> set (canActivate (ROUTES ! 28))"
proof -
  have m: "ROUTES ! 28 \<in> set ROUTES"
    by (rule nth_mem) (simp add: length_ROUTES)
  have p: "path (ROUTES ! 28) = ''profiles/:id''"
    by (simp add: ROUTES_def ROUTES_literal_def)
  from ROUTES_profiles_cdns_guarded m
  have "AuthenticatedGuard \<in> set (canActivate (ROUTES ! 28))" by blast
  with m p show ?thesis by blast
qed

section \<open>Number values\<close>

lemma pow2_pos: "0 < pow2 k"
  by (simp add: pow2_def)

lemma roundTiesToEven_of_int: "roundTiesToEven (of_int k) = k"
  by (simp add: roundTiesToEven_def)

lemma binary64_not_NaN: "binary64 r \<noteq> NaN"
  by (simp add: binary64_def Let_def)

lemma binaryExponent_of_nat:
  assumes "0 < v"
  shows "binaryExponent (of_nat v) = bitlen (int v) - 1"
proof -
  have q: "quotient_of (of_nat v) = (int v, 1)"
    using quotient_of_rat_of_int[of "int v"] by simp
  have b1: "bitlen 1 = 1" by (simp add: compute_bitlen)
  from assms have p: "0 < int v" by simp
  from bitlen_bounds[OF p] have l: "2 ^ nat (bitlen (int v) - 1) \<le> int v" by simp
  have g: "0 \<le> bitlen (int v) - 1"
    using p bitlen_eq_zero_iff[of "int v"] bitlen_nonneg[of "int v"] by linarith
  have "(2::rat) ^ nat (bitlen (int v) - 1) = of_int (2 ^ nat (bitlen (int v) - 1))"
    by simp
  also have "\<dots> \<le> of_int (int v)" using l by (simp only: of_int_le_iff)
  finally have "pow2 (bitlen (int v) - 1) \<le> of_nat v"
    using g by (simp add: pow2_def)
  then show ?thesis
    by (simp add: binaryExponent_def q b1)
qed

text \<open>Every natural number up to \<open>2^53\<close> is its own Number value.\<close>

lemma binary64_of_nat:
  assumes "v \<le> 2 ^ 53"
  shows "binary64 (of_nat v) = MV (of_nat v)"
proof (cases "v = 0")
  case True
  then show ?thesis by (simp add: binary64_def)
next
  case False
  then have pos: "0 < v" by simp
  define e where "e = bitlen (int v) - 1"
  have ex: "binaryExponent (of_nat v) = e"
    unfolding e_def by (rule binaryExponent_of_nat[OF pos])
  from pos have p: "0 < int v" by simp
  from bitlen_bounds[OF p] have l: "2 ^ nat e \<le> int v" by (simp add: e_def)
  have g: "0 \<le> e"
    using p bitlen_eq_zero_iff[of "int v"] bitlen_nonneg[of "int v"] unfolding e_def by linarith
  have "int v \<le> int (2 ^ 53)" using assms by (simp only: of_nat_le_iff)
  then have iv: "int v \<le> 2 ^ 53" by simp
  from l iv have "(2::int) ^ nat e \<le> 2 ^ 53" by (rule order_trans)
  then have n53: "nat e \<le> 53" by (rule power_le_imp_le_exp[rotated]) simp
  define q where "q = e - 52"
  have mx: "max (e - 52) (- 1074) = q" using g by (simp add: q_def)
  have r: "(of_nat v :: rat) = of_int (int v)" by simp
  have "\<exists>k. (of_nat v :: rat) / pow2 q = of_int k"
  proof (cases "e \<le> 52")
    case True
    then have "pow2 q = 1 / 2 ^ nat (- q)"
      by (cases "q = 0") (simp_all add: pow2_def q_def)
    then have "(of_nat v :: rat) / pow2 q = of_int (int v * 2 ^ nat (- q))" by simp
    then show ?thesis ..
  next
    case False
    with n53 g have e53: "e = 53" by linarith
    from l have "2 ^ 53 \<le> int v" by (simp add: e53)
    with iv have "int v = 2 ^ 53" by (rule order_antisym)
    then have v: "(of_nat v :: rat) = of_int (2 ^ 53)" by (simp only: r)
    have "pow2 q = 2" using e53 by (simp add: pow2_def q_def)
    then have "(of_nat v :: rat) / pow2 q = of_int (2 ^ 52)" by (simp add: v)
    then show ?thesis ..
  qed
  then obtain k where k: "(of_nat v :: rat) / pow2 q = of_int k" ..
  have "pow2 q \<noteq> 0" using pow2_pos[of q] by simp
  then have kq: "of_int k * pow2 q = (of_nat v :: rat)"
    using k by (simp add: nonzero_divide_eq_eq)
  have small: "\<not> pow2 1024 \<le> (of_nat v :: rat)"
  proof -
    have "(of_int (int v) :: rat) \<le> of_int (2 ^ 53)" using iv by (simp only: of_int_le_iff)
    then have "(of_nat v :: rat) \<le> 2 ^ 53" by simp
    also have "(2::rat) ^ 53 < 2 ^ 1024" by (rule power_strict_increasing) simp_all
    finally show ?thesis by (simp add: pow2_def)
  qed
  from pos have nz: "(of_nat v :: rat) \<noteq> 0" "\<not> (of_nat v :: rat) < 0" by simp_all
  have "binary64 (of_nat v) = MV (of_int k * pow2 q)"
    using nz small
    by (simp only: binary64_def Let_def ex mx k roundTiesToEven_of_int kq abs_of_nat if_False)
  then show ?thesis by (simp only: kq)
qed

section \<open>Decimal route parameters\<close>

lemma digit_not_ws: "isDigit 10 c \<Longrightarrow> \<not> isWhiteSpace c"
  by (auto simp: isDigit_def isWhiteSpace_def Let_def)

lemma trimStart_id: "s \<noteq> [] \<Longrightarrow> \<not> isWhiteSpace (hd s) \<Longrightarrow> trimStart s = s"
  by (cases s) (auto simp: trimStart_def)

lemma trimEnd_id: "s \<noteq> [] \<Longrightarrow> \<not> isWhiteSpace (last s) \<Longrightarrow> trimEnd s = s"
  by (cases s rule: rev_cases) (auto simp: trimEnd_def)

lemma numeric_trim:
  assumes "i \<noteq> []" "list_all (isDigit 10) i"
  shows "trimStart i = i" "trimEnd i = i"
proof -
  from assms have "isDigit 10 (hd i)" "isDigit 10 (last i)"
    by (auto simp: list_all_iff)
  with assms(1) show "trimStart i = i" "trimEnd i = i"
    by (auto intro: trimStart_id trimEnd_id dest: digit_not_ws)
qed

lemma takeWhile_all: "list_all P xs \<Longrightarrow> takeWhile P xs = xs"
  by (simp add: list_all_iff)

lemma dropWhile_all: "list_all P xs \<Longrightarrow> dropWhile P xs = []"
  by (simp add: list_all_iff)

lemma digit_not_sign: "isDigit 10 c \<Longrightarrow> c \<noteq> CHR ''+'' \<and> c \<noteq> CHR ''-''"
  by (auto simp: isDigit_def Let_def)

lemma digit_not_letter:
  "isDigit 10 c \<Longrightarrow> c \<noteq> CHR ''x'' \<and> c \<noteq> CHR ''X'' \<and> c \<noteq> CHR ''o'' \<and> c \<noteq> CHR ''O''
     \<and> c \<noteq> CHR ''b'' \<and> c \<noteq> CHR ''B'' \<and> c \<noteq> CHR ''I'' \<and> c \<noteq> CHR ''n''"
  by (auto simp: isDigit_def Let_def)

lemma numeric_parseInt10:
  assumes "i \<noteq> []" "list_all (isDigit 10) i"
  shows "parseInt10 i = binary64 (of_nat (digitsValue 10 i))"
proof -
  from assms have "isDigit 10 (hd i)" by (cases i) auto
  then have s: "hd i \<noteq> CHR ''+''" "hd i \<noteq> CHR ''-''" using digit_not_sign by auto
  have t: "takeWhile (isDigit 10) i = i" using assms(2) by (rule takeWhile_all)
  from assms(1) s t numeric_trim(1)[OF assms] show ?thesis
    by (cases i) (simp_all add: parseInt10_def Let_def)
qed

lemma numeric_nonDecimal:
  assumes "list_all (isDigit 10) i"
  shows "nonDecimalIntegerLiteral i = None"
proof (cases i)
  case Nil
  then show ?thesis by (simp add: nonDecimalIntegerLiteral_def)
next
  case (Cons z t)
  show ?thesis
  proof (cases t)
    case Nil
    with Cons show ?thesis by (simp add: nonDecimalIntegerLiteral_def)
  next
    case (Cons x ds)
    with assms \<open>i = z # t\<close> have "isDigit 10 x" by simp
    then show ?thesis using digit_not_letter[of x] Cons \<open>i = z # t\<close>
      by (simp add: nonDecimalIntegerLiteral_def)
  qed
qed

lemma numeric_strUnsignedDecimalLiteral:
  assumes "i \<noteq> []" "list_all (isDigit 10) i"
  shows "strUnsignedDecimalLiteral i = binary64 (of_nat (digitsValue 10 i))"
proof -
  from assms have "isDigit 10 (hd i)" by (cases i) auto
  then have "hd i \<noteq> CHR ''I''" using digit_not_letter by auto
  then have inf: "i \<noteq> ''Infinity''" by auto
  have t: "takeWhile (isDigit 10) i = i" using assms(2) by (rule takeWhile_all)
  have d: "dropWhile (isDigit 10) i = []" using assms(2) by (rule dropWhile_all)
  show ?thesis
    unfolding strUnsignedDecimalLiteral_def t d using inf assms(1)
    by (simp add: exponentPart_def scale10_def)
qed

lemma numeric_Number:
  assumes "i \<noteq> []" "list_all (isDigit 10) i"
  shows "Number i = binary64 (of_nat (digitsValue 10 i))"
proof -
  from assms have "isDigit 10 (hd i)" by (cases i) auto
  then have s: "hd i \<noteq> CHR ''+''" "hd i \<noteq> CHR ''-''" using digit_not_sign by auto
  have d: "strDecimalLiteral i = strUnsignedDecimalLiteral i"
    using assms(1) s by (cases i) (simp_all add: strDecimalLiteral_def)
  show ?thesis
    using assms(1)
    by (simp add: Number_def numeric_trim[OF assms] numeric_nonDecimal[OF assms(2)] d
        numeric_strUnsignedDecimalLiteral[OF assms])
qed

lemma numeric_not_new:
  assumes "list_all (isDigit 10) i"
  shows "i \<noteq> ''new''"
  using assms digit_not_letter[of "CHR ''n''"] by auto

text \<open>
  Decimal digits followed by one more character that is neither a digit, nor white space,
  nor a dot: \<^verbatim>\<open>parseInt\<close> reads the digits, \<^verbatim>\<open>Number\<close> rejects the string.
\<close>

lemma takeWhile_digits_then:
  assumes "list_all (isDigit 10) ds" and "\<not> isDigit 10 x"
  shows "takeWhile (isDigit 10) (ds @ x # t) = ds"
    and "dropWhile (isDigit 10) (ds @ x # t) = x # t"
  using assms by (simp_all add: list_all_iff takeWhile_append2 dropWhile_append2)

lemma digits_then_nonDecimal:
  assumes "ds \<noteq> []" and "list_all (isDigit 10) ds"
  shows "nonDecimalIntegerLiteral (ds @ [x]) = None"
proof (cases ds)
  case Nil
  with assms(1) show ?thesis by simp
next
  case (Cons z t)
  show ?thesis
  proof (cases t)
    case Nil
    with Cons show ?thesis by (simp add: nonDecimalIntegerLiteral_def)
  next
    case (Cons y u)
    with assms(2) \<open>ds = z # t\<close> have "isDigit 10 y" by simp
    then show ?thesis using digit_not_letter[of y] Cons \<open>ds = z # t\<close>
      by (simp add: nonDecimalIntegerLiteral_def)
  qed
qed

lemma digits_then_junk:
  assumes "ds \<noteq> []" and "list_all (isDigit 10) ds"
    and "\<not> isDigit 10 x" and "\<not> isWhiteSpace x"
    and "x \<noteq> CHR ''.''"
  shows "parseInt10 (ds @ [x]) = binary64 (of_nat (digitsValue 10 ds))"
    and "Number (ds @ [x]) = NaN"
proof -
  let ?s = "ds @ [x]"
  from assms(1,2) have h: "isDigit 10 (hd ?s)" by (cases ds) auto
  then have sg: "hd ?s \<noteq> CHR ''+''" "hd ?s \<noteq> CHR ''-''" "hd ?s \<noteq> CHR ''I''"
    using digit_not_sign digit_not_letter by auto
  have ts: "trimStart ?s = ?s"
    using h by (intro trimStart_id) (auto dest: digit_not_ws)
  have te: "trimEnd ?s = ?s"
    using assms(4) by (intro trimEnd_id) auto
  have tw: "takeWhile (isDigit 10) ?s = ds" "dropWhile (isDigit 10) ?s = [x]"
    using takeWhile_digits_then[OF assms(2,3), of "[]"] by simp_all
  from assms(1) sg ts tw show "parseInt10 ?s = binary64 (of_nat (digitsValue 10 ds))"
    by (cases ds) (simp_all add: parseInt10_def Let_def)
  have inf: "?s \<noteq> ''Infinity''" using sg(3) by auto
  have u: "strUnsignedDecimalLiteral ?s = NaN"
    unfolding strUnsignedDecimalLiteral_def tw using inf assms(1,5)
    by (simp add: exponentPart_def)
  have d: "strDecimalLiteral ?s = strUnsignedDecimalLiteral ?s"
    using sg assms(1) by (cases ds) (simp_all add: strDecimalLiteral_def)
  show "Number ?s = NaN"
    by (simp add: Number_def ts te digits_then_nonDecimal[OF assms(1,2)] d u)
qed

section \<open>Initialising the component\<close>

text \<open>
  Claim C2. For the route parameter \<^verbatim>\<open>new\<close> (once the awaited \<^verbatim>\<open>getCDNs\<close> call has
  resolved), \<^verbatim>\<open>ngOnInit\<close> stores an empty working record (empty name and description,
  id -1, cdn -1, routing not disabled, type \<^verbatim>\<open>ATS_PROFILE\<close>) and sets \<open>new\<close>, and its
  only effects are the CDN request and the header title: no profile is fetched.
\<close>

theorem ngOnInit_new_record:
  "cdnService_getCDNs w = Inr cs \<Longrightarrow>
     comp (ngOnInit w (Some ''new'') c)
       = c\<lparr>cdns := Some cs, new := True,
            profile := Some \<lparr>cdn = MV (- 1), cdnName = [], description = [], p_id = MV (- 1),
                             lastUpdated = clock_now w, p_name = [],
                             routingDisabled = False, p_type = ATS_PROFILE\<rparr>\<rparr>
     \<and> new (comp (ngOnInit w (Some ''new'') c))
     \<and> thrown (ngOnInit w (Some ''new'') c) = None
     \<and> effects (ngOnInit w (Some ''new'') c) = [CallGetCDNs, HeaderTitle ''New Profile'']
     \<and> \<not> list_ex is_fetch (effects (ngOnInit w (Some ''new'') c))"
  by (simp add: ngOnInit_def new_profile_def)

theorem ngOnInit_new_record_witness:
  "profile (comp (ngOnInit example_world (Some ''new'') constructed))
     = Some \<lparr>cdn = MV (- 1), cdnName = [], description = [], p_id = MV (- 1),
             lastUpdated = 1000, p_name = [], routingDisabled = False, p_type = ATS_PROFILE\<rparr>
   \<and> new (comp (ngOnInit example_world (Some ''new'') constructed))
   \<and> effects (ngOnInit example_world (Some ''new'') constructed)
       = [CallGetCDNs, HeaderTitle ''New Profile'']"
proof -
  have g: "cdnService_getCDNs example_world = Inr []"
    by (simp add: example_world_def)
  have t: "clock_now example_world = 1000"
    by (simp add: example_world_def)
  from ngOnInit_new_record[OF g, of constructed] t show ?thesis
    by simp
qed

lemma digitsValue_7: "digitsValue 10 ''7'' = 7"
  by (simp add: digitsValue_def digitValue_def)

text \<open>
  Claim C3, in the form that holds. For every route parameter that is a non-empty string
  of decimal digits with a value of at most \<open>2^53\<close>, \<^verbatim>\<open>ngOnInit\<close> asks the API for the
  profiles with that id; when the API answers with records, the first one becomes the
  form model, \<open>new\<close> keeps its value (false on a freshly constructed component), and the
  header title \<^verbatim>\<open>Profile: \<close> followed by the record's name is published.
\<close>

theorem ngOnInit_loads_numeric_id:
  assumes "i \<noteq> []" and "list_all (isDigit 10) i"
    and "digitsValue 10 i \<le> 2 ^ 53"
    and "cdnService_getCDNs w = Inr cs"
    and "api_get w ''profiles''
           (Some [(''id'', numberToString w (of_nat (digitsValue 10 i)))]) = Inr (p # ps)"
  shows "effects (ngOnInit w (Some i) c)
           = [CallGetCDNs,
              ApiGet ''profiles'' (Some [(''id'', numberToString w (of_nat (digitsValue 10 i)))]),
              HeaderTitle (''Profile: '' @ p_name p)]
         \<and> comp (ngOnInit w (Some i) c) = c\<lparr>cdns := Some cs, profile := Some p\<rparr>
         \<and> new (comp (ngOnInit w (Some i) c)) = new c
         \<and> new (comp (ngOnInit w (Some i) constructed)) = False
         \<and> thrown (ngOnInit w (Some i) c) = None"
proof -
  have n: "i \<noteq> ''new''" using assms(2) by (rule numeric_not_new)
  have g: "\<not> isNaN (parseInt10 i)"
    by (simp add: numeric_parseInt10[OF assms(1,2)] isNaN_def binary64_not_NaN)
  have v: "Number i = MV (of_nat (digitsValue 10 i))"
    by (simp only: numeric_Number[OF assms(1,2)] binary64_of_nat[OF assms(3)])
  have r: "getProfiles_by w (IdNumber (Number i))
             = ([ApiGet ''profiles''
                   (Some [(''id'', numberToString w (of_nat (digitsValue 10 i)))])],
                Inr (Some p))"
    using assms(5)
    by (simp add: getProfiles_by_def v String_of_number_def)
  have o: "ngOnInit w (Some i) c
             = \<lparr>effects = [CallGetCDNs,
                  ApiGet ''profiles''
                    (Some [(''id'', numberToString w (of_nat (digitsValue 10 i)))]),
                  HeaderTitle (''Profile: '' @ p_name p)],
                comp = c\<lparr>cdns := Some cs, profile := Some p\<rparr>,
                thrown = None\<rparr>" for c
    using assms(4) n g r by (simp add: ngOnInit_def)
  show ?thesis
    by (simp add: o constructed_def)
qed

theorem ngOnInit_loads_numeric_id_witness:
  "effects (ngOnInit example_world (Some ''7'') constructed)
     = [CallGetCDNs, ApiGet ''profiles'' (Some [(''id'', ''7'')]), HeaderTitle ''Profile: GLOBAL'']
   \<and> comp (ngOnInit example_world (Some ''7'') constructed) = example_existing
   \<and> thrown (ngOnInit example_world (Some ''7'') constructed) = None"
proof -
  have a: "''7'' \<noteq> []" by simp
  have b: "list_all (isDigit 10) ''7''" by (simp add: isDigit_def)
  have d: "digitsValue 10 ''7'' \<le> 2 ^ 53" by (simp add: digitsValue_7)
  have g: "cdnService_getCDNs example_world = Inr []"
    by (simp add: example_world_def)
  have s: "numberToString example_world (of_nat (digitsValue 10 ''7'')) = ''7''"
    by (simp add: digitsValue_7 example_world_def render_integer_def)
  have r: "api_get example_world ''profiles''
             (Some [(''id'', numberToString example_world (of_nat (digitsValue 10 ''7'')))])
           = Inr (example_profile # [])"
    unfolding s by (simp add: example_world_def)
  from ngOnInit_loads_numeric_id[OF a b d g r, of constructed] s show ?thesis
    by (simp add: example_existing_def constructed_def example_profile_def)
qed

lemma digitsValue_2_53_1: "digitsValue 10 ''9007199254740993'' = 9007199254740993"
  by (simp add: digitsValue_def digitValue_def)

lemma bitlen_2_53_1: "bitlen 9007199254740993 = 54"
  by (simp add: bitlen_le_iff_power bitlen_ge_iff_power order_eq_iff)

lemma binary64_2_53_1: "binary64 9007199254740993 = MV 9007199254740992"
proof -
  have e: "binaryExponent 9007199254740993 = 53"
    using binaryExponent_of_nat[of 9007199254740993] by (simp add: bitlen_2_53_1)
  have p: "pow2 1 = 2" by (simp add: pow2_def)
  have f: "\<lfloor>(9007199254740993::rat) / 2\<rfloor> = 4503599627370496"
    by (rule floor_unique) simp_all
  have r: "roundTiesToEven (9007199254740993 / 2) = 4503599627370496"
    by (simp add: roundTiesToEven_def Let_def f)
  have b: "\<not> pow2 1024 \<le> 9007199254740992"
    by (simp add: pow2_def)
  show ?thesis
    by (simp add: binary64_def Let_def e p r b)
qed

lemma render_2_53: "render_integer 9007199254740992 = ''9007199254740992''"
  by (simp add: render_integer_def)

text \<open>
  The claim as first stated (for every numeric id) does not hold beyond \<open>2^53\<close>: for
  the route parameter \<^verbatim>\<open>9007199254740993\<close>, \<^verbatim>\<open>Number(id)\<close> is 9007199254740992, so the
  component asks for that other id and loads the record the server holds under it.
\<close>

theorem ngOnInit_rounded_id_counterexample:
  "list_all (isDigit 10) ''9007199254740993''
   \<and> digitsValue 10 ''9007199254740993'' = 9007199254740993
   \<and> Number ''9007199254740993'' = MV 9007199254740992
   \<and> effects (ngOnInit rounding_world (Some ''9007199254740993'') constructed)
       = [CallGetCDNs, ApiGet ''profiles'' (Some [(''id'', ''9007199254740992'')]),
          HeaderTitle ''Profile: GLOBAL'']
   \<and> profile (comp (ngOnInit rounding_world (Some ''9007199254740993'') constructed))
       = Some (example_profile\<lparr>p_id := MV 9007199254740992\<rparr>)
   \<and> thrown (ngOnInit rounding_world (Some ''9007199254740993'') constructed) = None"
proof -
  have a: "''9007199254740993'' \<noteq> []" by simp
  have b: "list_all (isDigit 10) ''9007199254740993''" by (simp add: isDigit_def)
  have n: "Number ''9007199254740993'' = MV 9007199254740992"
    using numeric_Number[OF a b] by (simp add: digitsValue_2_53_1 binary64_2_53_1)
  have g: "\<not> isNaN (parseInt10 ''9007199254740993'')"
    by (simp add: numeric_parseInt10[OF a b] isNaN_def binary64_not_NaN)
  have s: "String_of_number rounding_world (MV 9007199254740992) = ''9007199254740992''"
    by (simp add: String_of_number_def rounding_world_def render_2_53)
  have r: "getProfiles_by rounding_world (IdNumber (Number ''9007199254740993''))
             = ([ApiGet ''profiles'' (Some [(''id'', ''9007199254740992'')])],
                Inr (Some (example_profile\<lparr>p_id := MV 9007199254740992\<rparr>)))"
    unfolding n getProfiles_by_def by (simp add: s) (simp add: rounding_world_def)
  have c: "cdnService_getCDNs rounding_world = Inr []"
    by (simp add: rounding_world_def)
  have o: "ngOnInit rounding_world (Some ''9007199254740993'') constructed
             = \<lparr>effects = [CallGetCDNs,
                  ApiGet ''profiles'' (Some [(''id'', ''9007199254740992'')]),
                  HeaderTitle ''Profile: GLOBAL''],
                comp = constructed\<lparr>cdns := Some [],
                  profile := Some (example_profile\<lparr>p_id := MV 9007199254740992\<rparr>)\<rparr>,
                thrown = None\<rparr>"
    using c g r by (simp add: ngOnInit_def example_profile_def)
  have e: "effects (ngOnInit rounding_world (Some ''9007199254740993'') constructed)
       = [CallGetCDNs, ApiGet ''profiles'' (Some [(''id'', ''9007199254740992'')]),
          HeaderTitle ''Profile: GLOBAL'']"
    and f: "profile (comp (ngOnInit rounding_world (Some ''9007199254740993'') constructed))
       = Some (example_profile\<lparr>p_id := MV 9007199254740992\<rparr>)"
    and t: "thrown (ngOnInit rounding_world (Some ''9007199254740993'') constructed) = None"
    by (simp_all add: o)
  from b digitsValue_2_53_1 n e f t show ?thesis
    by (intro conjI)
qed

lemma parseInt10_12x: "parseInt10 ''12x'' = MV 12"
proof -
  have d: "digitsValue 10 ''12'' = 12"
    by (simp add: digitsValue_def digitValue_def)
  have "(12::nat) \<le> 2 ^ 53" by simp
  from binary64_of_nat[OF this] have "binary64 12 = MV 12" by simp
  with digits_then_junk(1)[of "''12''" "CHR ''x''"] d show ?thesis
    by (simp add: isDigit_def isWhiteSpace_def)
qed

lemma Number_12x: "Number ''12x'' = NaN"
  by (simp add: Number_def trimEnd_def trimStart_def isWhiteSpace_def
      nonDecimalIntegerLiteral_def strDecimalLiteral_def strUnsignedDecimalLiteral_def
      isDigit_def exponentPart_def)

text \<open>
  Claim C8, in the form that holds. Once the awaited \<^verbatim>\<open>getCDNs\<close> call has resolved,
  \<^verbatim>\<open>ngOnInit\<close> throws before requesting a profile exactly when the route parameter is
  absent, or is a string other than \<^verbatim>\<open>new\<close> for which \<^verbatim>\<open>parseInt(id, 10)\<close> is
  \<^verbatim>\<open>NaN\<close>; the errors are the two it constructs itself. For every other id except
  \<^verbatim>\<open>new\<close> it requests the profile with \<^verbatim>\<open>Number(id)\<close>. For decimal digits
  followed by a character that is not a digit, white space or a dot, such as
  \<^verbatim>\<open>12x\<close>, the guard passes, \<^verbatim>\<open>Number(id)\<close> is \<^verbatim>\<open>NaN\<close>, and the query is
  \<^verbatim>\<open>id=NaN\<close>.
\<close>

theorem ngOnInit_guard_throws_exactly_when:
  assumes "cdnService_getCDNs w = Inr cs"
  shows "((thrown (ngOnInit w idParam c) \<noteq> None
            \<and> \<not> list_ex is_fetch (effects (ngOnInit w idParam c)))
          = (idParam = None
             \<or> (\<exists>i. idParam = Some i \<and> i \<noteq> ''new'' \<and> isNaN (parseInt10 i))))
         \<and> (idParam = None \<longrightarrow>
              thrown (ngOnInit w idParam c) = Some (Error missing_id_message))
         \<and> (\<forall>i. idParam = Some i \<and> i \<noteq> ''new'' \<and> isNaN (parseInt10 i) \<longrightarrow>
              thrown (ngOnInit w idParam c) = Some (Error non_number_message))
         \<and> (\<forall>i. idParam = Some i \<and> i \<noteq> ''new'' \<and> \<not> isNaN (parseInt10 i) \<longrightarrow>
              take 2 (effects (ngOnInit w idParam c))
                = [CallGetCDNs,
                   ApiGet ''profiles'' (Some [(''id'', String_of_number w (Number i))])])
         \<and> (\<forall>ds x. ds \<noteq> [] \<and> list_all (isDigit 10) ds \<and> \<not> isDigit 10 x
                  \<and> \<not> isWhiteSpace x \<and> x \<noteq> CHR ''.'' \<longrightarrow>
                \<not> isNaN (parseInt10 (ds @ [x])) \<and> Number (ds @ [x]) = NaN)
         \<and> \<not> isNaN (parseInt10 ''12x'') \<and> Number ''12x'' = NaN
         \<and> String_of_number w (Number ''12x'') = ''NaN''"
proof -
  have x: "(\<forall>ds x. ds \<noteq> [] \<and> list_all (isDigit 10) ds \<and> \<not> isDigit 10 x
                  \<and> \<not> isWhiteSpace x \<and> x \<noteq> CHR ''.'' \<longrightarrow>
                \<not> isNaN (parseInt10 (ds @ [x])) \<and> Number (ds @ [x]) = NaN)
         \<and> \<not> isNaN (parseInt10 ''12x'') \<and> Number ''12x'' = NaN
         \<and> String_of_number w (Number ''12x'') = ''NaN''"
    by (simp add: parseInt10_12x Number_12x isNaN_def String_of_number_def digits_then_junk
        binary64_not_NaN)
  have y: "((thrown (ngOnInit w idParam c) \<noteq> None
            \<and> \<not> list_ex is_fetch (effects (ngOnInit w idParam c)))
          = (idParam = None
             \<or> (\<exists>i. idParam = Some i \<and> i \<noteq> ''new'' \<and> isNaN (parseInt10 i))))
         \<and> (idParam = None \<longrightarrow>
              thrown (ngOnInit w idParam c) = Some (Error missing_id_message))
         \<and> (\<forall>i. idParam = Some i \<and> i \<noteq> ''new'' \<and> isNaN (parseInt10 i) \<longrightarrow>
              thrown (ngOnInit w idParam c) = Some (Error non_number_message))
         \<and> (\<forall>i. idParam = Some i \<and> i \<noteq> ''new'' \<and> \<not> isNaN (parseInt10 i) \<longrightarrow>
              take 2 (effects (ngOnInit w idParam c))
                = [CallGetCDNs,
                   ApiGet ''profiles'' (Some [(''id'', String_of_number w (Number i))])])"
  proof (cases idParam)
    case None
    with assms show ?thesis
      by (simp add: ngOnInit_def)
  next
    case (Some i)
    with assms show ?thesis
      by (simp add: ngOnInit_def getProfiles_by_def Let_def split: sum.splits list.splits)
  qed
  from y x show ?thesis by blast
qed

theorem ngOnInit_guard_throws_exactly_when_witness:
  "take 2 (effects (ngOnInit example_world (Some ''12x'') constructed))
       = [CallGetCDNs, ApiGet ''profiles'' (Some [(''id'', ''NaN'')])]
   \<and> thrown (ngOnInit example_world None constructed) = Some (Error missing_id_message)
   \<and> thrown (ngOnInit example_world (Some ''x12'') constructed)
       = Some (Error non_number_message)"
proof -
  have g: "cdnService_getCDNs example_world = Inr []"
    by (simp add: example_world_def)
  have n: "\<not> isNaN (parseInt10 ''12x'')"
    by (simp add: parseInt10_12x isNaN_def)
  have s: "String_of_number example_world (Number ''12x'') = ''NaN''"
    by (simp add: Number_12x String_of_number_def)
  have m: "isNaN (parseInt10 ''x12'')"
    by (simp add: parseInt10_def trimStart_def isWhiteSpace_def isDigit_def isNaN_def)
  from ngOnInit_guard_throws_exactly_when[OF g, of "Some ''12x''" constructed] n s
  have p: "take 2 (effects (ngOnInit example_world (Some ''12x'') constructed))
       = [CallGetCDNs, ApiGet ''profiles'' (Some [(''id'', ''NaN'')])]"
    by simp
  from ngOnInit_guard_throws_exactly_when[OF g, of None constructed]
  have q: "thrown (ngOnInit example_world None constructed) = Some (Error missing_id_message)"
    by simp
  from ngOnInit_guard_throws_exactly_when[OF g, of "Some ''x12''" constructed] m
  have r: "thrown (ngOnInit example_world (Some ''x12'') constructed)
       = Some (Error non_number_message)"
    by simp
  from p q r show ?thesis by simp
qed

text \<open>
  The claim as first stated (\<^verbatim>\<open>ngOnInit\<close> throws exactly when the parameter is absent
  or fails the \<^verbatim>\<open>parseInt\<close> guard) does not hold: with the parameter \<^verbatim>\<open>8\<close>, both
  awaited calls resolve, the response array is empty, \<^verbatim>\<open>r[0]\<close> is \<^verbatim>\<open>undefined\<close>,
  and reading its \<^verbatim>\<open>name\<close> throws.
\<close>

theorem ngOnInit_empty_response_counterexample:
  "cdnService_getCDNs example_world = Inr []
   \<and> api_get example_world ''profiles'' (Some [(''id'', ''8'')]) = Inr []
   \<and> \<not> isNaN (parseInt10 ''8'')
   \<and> effects (ngOnInit example_world (Some ''8'') constructed)
       = [CallGetCDNs, ApiGet ''profiles'' (Some [(''id'', ''8'')])]
   \<and> thrown (ngOnInit example_world (Some ''8'') constructed) = Some TypeError"
proof -
  have a: "''8'' \<noteq> []" by simp
  have b: "list_all (isDigit 10) ''8''" by (simp add: isDigit_def)
  have d: "digitsValue 10 ''8'' = 8" by (simp add: digitsValue_def digitValue_def)
  have "(8::nat) \<le> 2 ^ 53" by simp
  from binary64_of_nat[OF this] have e: "binary64 8 = MV 8" by simp
  have n: "Number ''8'' = MV 8"
    using numeric_Number[OF a b] by (simp add: d e)
  have g: "\<not> isNaN (parseInt10 ''8'')"
    by (simp add: numeric_parseInt10[OF a b] isNaN_def binary64_not_NaN)
  have s: "String_of_number example_world (MV 8) = ''8''"
    by (simp add: String_of_number_def example_world_def render_integer_def)
  have c: "cdnService_getCDNs example_world = Inr []"
    by (simp add: example_world_def)
  have r: "api_get example_world ''profiles'' (Some [(''id'', ''8'')]) = Inr []"
    by (simp add: example_world_def)
  have o: "getProfiles_by example_world (IdNumber (Number ''8''))
             = ([ApiGet ''profiles'' (Some [(''id'', ''8'')])], Inr None)"
    unfolding n getProfiles_by_def by (simp add: s r)
  from c r g o show ?thesis
    by (simp add: ngOnInit_def)
qed

section \<open>Submitting the form\<close>

text \<open>
  Claim C1. For every submission, \<^verbatim>\<open>submit\<close> first calls \<^verbatim>\<open>preventDefault\<close> (and
  \<^verbatim>\<open>stopPropagation\<close>) on the event. If \<open>new\<close> is set it then posts the working
  profile to \<^verbatim>\<open>profiles\<close>, and when the server answers, the answer replaces the
  working copy and \<open>new\<close> becomes false. Otherwise it puts the working profile to
  \<^verbatim>\<open>profiles/{id}\<close>, and the server's answer replaces the working copy.
\<close>

theorem submit_create_or_update:
  "take 2 (effects (submit w c)) = [PreventDefault, StopPropagation]
   \<and> (new c \<longrightarrow>
        effects (submit w c)
          = [PreventDefault, StopPropagation, ApiPost ''profiles'' (profile c)]
        \<and> (\<forall>r. api_post w ''profiles'' (profile c) = Inr r \<longrightarrow>
              comp (submit w c) = c\<lparr>profile := Some r, new := False\<rparr>
              \<and> thrown (submit w c) = None))
   \<and> (\<not> new c \<longrightarrow>
        (\<forall>p. profile c = Some p \<longrightarrow>
           effects (submit w c)
             = [PreventDefault, StopPropagation,
                ApiPut (''profiles/'' @ String_of_number w (p_id p)) p]
           \<and> (\<forall>r. api_put w (''profiles/'' @ String_of_number w (p_id p)) p = Inr r \<longrightarrow>
                 comp (submit w c) = c\<lparr>profile := Some r\<rparr>
                 \<and> thrown (submit w c) = None)))"
  by (auto simp: submit_def createProfile_def updateProfile_def Let_def
      split: sum.splits option.splits)

theorem submit_create_or_update_witness:
  "effects (submit example_world example_new)
     = [PreventDefault, StopPropagation, ApiPost ''profiles'' (Some (new_profile example_world))]
   \<and> comp (submit example_world example_new)
     = \<lparr>new = False, profile = Some ((new_profile example_world)\<lparr>p_id := MV 7\<rparr>), cdns = Some []\<rparr>
   \<and> effects (submit example_world example_existing)
     = [PreventDefault, StopPropagation, ApiPut ''profiles/7'' example_profile]
   \<and> comp (submit example_world example_existing) = example_existing"
proof -
  have n: "new example_new" "profile example_new = Some (new_profile example_world)"
    by (simp_all add: example_new_def)
  have post: "api_post example_world ''profiles'' (profile example_new)
                = Inr ((new_profile example_world)\<lparr>p_id := MV 7\<rparr>)"
    by (simp add: example_world_def example_new_def)
  have e: "\<not> new example_existing" "profile example_existing = Some example_profile"
    by (simp_all add: example_existing_def)
  have path: "''profiles/'' @ String_of_number example_world (p_id example_profile) = ''profiles/7''"
    by (simp add: String_of_number_def example_world_def render_integer_def example_profile_def)
  have put: "api_put example_world ''profiles/7'' example_profile = Inr example_profile"
    by (simp add: example_world_def)
  from submit_create_or_update[of example_world example_new] n post
  have a: "effects (submit example_world example_new)
     = [PreventDefault, StopPropagation, ApiPost ''profiles'' (Some (new_profile example_world))]"
    and b: "comp (submit example_world example_new)
       = example_new\<lparr>profile := Some ((new_profile example_world)\<lparr>p_id := MV 7\<rparr>), new := False\<rparr>"
    by simp_all
  from submit_create_or_update[of example_world example_existing] e path put
  have c: "effects (submit example_world example_existing)
     = [PreventDefault, StopPropagation, ApiPut ''profiles/7'' example_profile]"
    and d: "comp (submit example_world example_existing)
       = example_existing\<lparr>profile := Some example_profile\<rparr>"
    by simp_all
  from a b c d show ?thesis
    by (simp add: example_new_def example_existing_def)
qed

text \<open>A rejected request leaves the component as it was and is rethrown.\<close>

lemma submit_rejected:
  "new c \<Longrightarrow> api_post w ''profiles'' (profile c) = Inl e \<Longrightarrow>
     comp (submit w c) = c \<and> thrown (submit w c) = Some e"
  by (simp add: submit_def createProfile_def)

text \<open>
  Claim C4, in the form that holds. On form submission for an existing record the component sends
  the update and nothing else: its only request is one PUT of the form model to
  \<^verbatim>\<open>profiles/{id}\<close>; it does not fetch the resource again and it does not navigate.
\<close>

theorem submit_existing_sends_only:
  assumes "\<not> new c" and "profile c = Some p"
  shows "effects (submit w c)
           = [PreventDefault, StopPropagation,
              ApiPut (''profiles/'' @ String_of_number w (p_id p)) p]
         \<and> \<not> list_ex is_fetch (effects (submit w c))
         \<and> \<not> list_ex is_navigation (effects (submit w c))
         \<and> length (filter is_request (effects (submit w c))) = 1"
  using assms
  by (auto simp: submit_def updateProfile_def Let_def split: sum.splits)

theorem submit_existing_sends_only_witness:
  "effects (submit example_world example_existing)
     = [PreventDefault, StopPropagation,
        ApiPut (''profiles/'' @ String_of_number example_world (p_id example_profile))
          example_profile]
   \<and> length (filter is_request (effects (submit example_world example_existing))) = 1"
proof -
  have e: "\<not> new example_existing" "profile example_existing = Some example_profile"
    by (simp_all add: example_existing_def)
  from submit_existing_sends_only[OF e, of example_world] show ?thesis
    by simp
qed

text \<open>
  The claim as first stated (on submit the record is fetched again, compared and sent,
  and then the component navigates) does not hold: submitting the loaded example
  profile makes one PUT, no GET and no navigation.
\<close>

theorem submit_existing_no_fetch_counterexample:
  "\<not> new example_existing
   \<and> effects (submit example_world example_existing)
       = [PreventDefault, StopPropagation, ApiPut ''profiles/7'' example_profile]
   \<and> \<not> list_ex is_fetch (effects (submit example_world example_existing))
   \<and> \<not> list_ex is_navigation (effects (submit example_world example_existing))"
  by (simp add: submit_def updateProfile_def example_existing_def example_world_def
      String_of_number_def render_integer_def example_profile_def)

section \<open>The service methods\<close>

text \<open>With an argument, \<^verbatim>\<open>getProfiles\<close> is the block that returns \<^verbatim>\<open>r[0]\<close>.\<close>

lemma getProfiles_defined:
  "getProfiles w (Some a)
     = (fst (getProfiles_by w a), map_sum id OneProfile (snd (getProfiles_by w a)))"
  by (simp add: getProfiles_def getProfiles_by_def Let_def split: sum.splits)



text \<open>
  Claim C9. For every number or string argument, \<^verbatim>\<open>getProfiles\<close> returns the first
  element of the response array: for an empty array that is \<^verbatim>\<open>undefined\<close>, and only
  for a non-empty array is it a profile.
\<close>

theorem getProfiles_first_or_undefined:
  "(\<forall>r. api_get w ''profiles'' (Some [(''id'', String_of_number w n)]) = Inr r \<longrightarrow>
        snd (getProfiles w (Some (IdNumber n)))
          = Inr (OneProfile (if r = [] then None else Some (r ! 0))))
   \<and> (\<forall>r. api_get w ''profiles'' (Some [(''name'', s)]) = Inr r \<longrightarrow>
        snd (getProfiles w (Some (NameString s)))
          = Inr (OneProfile (if r = [] then None else Some (r ! 0))))"
  by (auto simp: getProfiles_def getProfiles_by_def Let_def split: sum.splits list.splits)

theorem getProfiles_first_or_undefined_witness:
  "snd (getProfiles example_world (Some (IdNumber (MV 7)))) = Inr (OneProfile (Some example_profile))
   \<and> snd (getProfiles example_world (Some (NameString ''GLOBAL''))) = Inr (OneProfile None)"
proof -
  have s: "String_of_number example_world (MV 7) = ''7''"
    by (simp add: String_of_number_def example_world_def render_integer_def)
  have a: "api_get example_world ''profiles''
             (Some [(''id'', String_of_number example_world (MV 7))]) = Inr [example_profile]"
    unfolding s by (simp add: example_world_def)
  have b: "api_get example_world ''profiles'' (Some [(''name'', ''GLOBAL'')]) = Inr []"
    by (simp add: example_world_def)
  from getProfiles_first_or_undefined[of example_world "MV 7" "''GLOBAL''"] a b show ?thesis
    by simp
qed

section \<open>Deleting\<close>

lemma deleteType_effects_existing:
  assumes "\<not> new c" and "profile c = Some p"
  shows "effects (deleteType w c)
     = DialogOpen (''Are you sure to delete Profile '' @ p_name p @ '' with id ''
                     @ String_of_number w (p_id p) @ ''?'') ''Confirm Delete''
       # (if dialog_afterClosed w = Some True
          then ApiDelete (''profiles/'' @ String_of_number w (p_id p))
               # (case api_delete w (''profiles/'' @ String_of_number w (p_id p)) of
                    Inl e \<Rightarrow> [Unhandled e]
                  | Inr _ \<Rightarrow> [Navigate [''/core/profiles'']])
          else [])"
  using assms
  by (auto simp: deleteType_def afterClosed_subscriber_def deleteProfile_def Let_def
      split: option.splits sum.splits)

lemma submit_no_delete: "\<not> list_ex is_delete (effects (submit w c))"
  by (auto simp: submit_def createProfile_def updateProfile_def Let_def
      split: sum.splits option.splits)

lemma ngOnInit_no_delete: "\<not> list_ex is_delete (effects (ngOnInit w i c))"
  by (auto simp: ngOnInit_def getProfiles_by_def Let_def
      split: sum.splits option.splits list.splits)

lemma deleteType_effects_other:
  assumes "new c \<or> profile c = None"
  shows "\<not> list_ex is_delete (effects (deleteType w c))"
  using assms by (auto simp: deleteType_def)

text \<open>
  Claim C6. \<^verbatim>\<open>ngOnInit\<close> and \<^verbatim>\<open>submit\<close> never issue a DELETE, and
  \<^verbatim>\<open>deleteType\<close> issues one only after the dialog has been opened and has closed with
  a truthy result. For an existing profile \<^verbatim>\<open>deleteType\<close> opens the
  decision dialog; if the dialog closes with a truthy result it calls
  \<^verbatim>\<open>deleteProfile\<close> with the profile's id, and when that succeeds it navigates to
  \<^verbatim>\<open>/core/profiles\<close> (and does not navigate when it fails); if the result is falsy, or
  the dialog never closes, the dialog is the only effect and no request is made.
\<close>

theorem deleteType_confirm_then_delete:
  "\<not> list_ex is_delete (effects (ngOnInit w i c))
   \<and> \<not> list_ex is_delete (effects (submit w c))
   \<and> (list_ex is_delete (effects (deleteType w c)) \<longrightarrow>
      dialog_afterClosed w = Some True
      \<and> list_ex is_dialog (takeWhile (\<lambda>e. \<not> is_delete e) (effects (deleteType w c))))
   \<and> (\<not> new c \<longrightarrow>
       (\<forall>p. profile c = Some p \<longrightarrow>
          (dialog_afterClosed w = Some True \<longrightarrow>
             take 2 (effects (deleteType w c))
               = [DialogOpen (''Are you sure to delete Profile '' @ p_name p @ '' with id ''
                               @ String_of_number w (p_id p) @ ''?'') ''Confirm Delete'',
                  ApiDelete (''profiles/'' @ String_of_number w (p_id p))]
             \<and> (\<forall>r. api_delete w (''profiles/'' @ String_of_number w (p_id p)) = Inr r \<longrightarrow>
                   drop 2 (effects (deleteType w c)) = [Navigate [''/core/profiles'']])
             \<and> (\<forall>e. api_delete w (''profiles/'' @ String_of_number w (p_id p)) = Inl e \<longrightarrow>
                   \<not> list_ex is_navigation (effects (deleteType w c))))
          \<and> (dialog_afterClosed w \<noteq> Some True \<longrightarrow>
               effects (deleteType w c)
                 = [DialogOpen (''Are you sure to delete Profile '' @ p_name p @ '' with id ''
                                 @ String_of_number w (p_id p) @ ''?'') ''Confirm Delete'']
               \<and> \<not> list_ex is_request (effects (deleteType w c)))))"
proof -
  have a: "list_ex is_delete (effects (deleteType w c)) \<longrightarrow>
      dialog_afterClosed w = Some True
      \<and> list_ex is_dialog (takeWhile (\<lambda>e. \<not> is_delete e) (effects (deleteType w c)))"
  proof (cases "new c \<or> profile c = None")
    case True
    then show ?thesis using deleteType_effects_other by blast
  next
    case False
    then obtain p where "\<not> new c" "profile c = Some p" by auto
    then show ?thesis
      by (simp add: deleteType_effects_existing split: sum.splits)
  qed
  have b: "\<not> new c \<longrightarrow>
       (\<forall>p. profile c = Some p \<longrightarrow>
          (dialog_afterClosed w = Some True \<longrightarrow>
             take 2 (effects (deleteType w c))
               = [DialogOpen (''Are you sure to delete Profile '' @ p_name p @ '' with id ''
                               @ String_of_number w (p_id p) @ ''?'') ''Confirm Delete'',
                  ApiDelete (''profiles/'' @ String_of_number w (p_id p))]
             \<and> (\<forall>r. api_delete w (''profiles/'' @ String_of_number w (p_id p)) = Inr r \<longrightarrow>
                   drop 2 (effects (deleteType w c)) = [Navigate [''/core/profiles'']])
             \<and> (\<forall>e. api_delete w (''profiles/'' @ String_of_number w (p_id p)) = Inl e \<longrightarrow>
                   \<not> list_ex is_navigation (effects (deleteType w c))))
          \<and> (dialog_afterClosed w \<noteq> Some True \<longrightarrow>
               effects (deleteType w c)
                 = [DialogOpen (''Are you sure to delete Profile '' @ p_name p @ '' with id ''
                                 @ String_of_number w (p_id p) @ ''?'') ''Confirm Delete'']
               \<and> \<not> list_ex is_request (effects (deleteType w c))))"
    by (simp add: deleteType_effects_existing)
  from submit_no_delete ngOnInit_no_delete a b show ?thesis by blast
qed

theorem deleteType_confirm_then_delete_witness:
  "effects (deleteType example_world example_existing)
     = [DialogOpen ''Are you sure to delete Profile GLOBAL with id 7?'' ''Confirm Delete'',
        ApiDelete ''profiles/7'', Navigate [''/core/profiles'']]
   \<and> effects (deleteType (example_world\<lparr>dialog_afterClosed := Some False\<rparr>) example_existing)
     = [DialogOpen ''Are you sure to delete Profile GLOBAL with id 7?'' ''Confirm Delete'']"
proof -
  let ?w = "example_world\<lparr>dialog_afterClosed := Some False\<rparr>"
  have e: "\<not> new example_existing" "profile example_existing = Some example_profile"
    by (simp_all add: example_existing_def)
  have s: "String_of_number example_world (p_id example_profile) = ''7''"
      "String_of_number ?w (p_id example_profile) = ''7''"
    by (simp_all add: String_of_number_def example_world_def render_integer_def example_profile_def)
  have n: "p_name example_profile = ''GLOBAL''"
    by (simp add: example_profile_def)
  have d: "dialog_afterClosed example_world = Some True" "dialog_afterClosed ?w \<noteq> Some True"
    by (simp_all add: example_world_def)
  have r: "api_delete example_world ''profiles/7'' = Inr example_profile"
    by (simp add: example_world_def)
  from deleteType_confirm_then_delete[of example_world _ example_existing] e d(1) s(1) n r
  have t: "take 2 (effects (deleteType example_world example_existing))
            = [DialogOpen ''Are you sure to delete Profile GLOBAL with id 7?'' ''Confirm Delete'',
               ApiDelete ''profiles/7'']"
    and u: "drop 2 (effects (deleteType example_world example_existing))
            = [Navigate [''/core/profiles'']]"
    by simp_all
  have a: "effects (deleteType example_world example_existing)
     = [DialogOpen ''Are you sure to delete Profile GLOBAL with id 7?'' ''Confirm Delete'',
        ApiDelete ''profiles/7'', Navigate [''/core/profiles'']]"
    using append_take_drop_id[of 2 "effects (deleteType example_world example_existing)"]
    unfolding t u by simp
  from deleteType_confirm_then_delete[of ?w _ example_existing] e d(2) s(2) n
  have b: "effects (deleteType ?w example_existing)
     = [DialogOpen ''Are you sure to delete Profile GLOBAL with id 7?'' ''Confirm Delete'']"
    by simp
  from a b show ?thesis by (rule conjI)
qed

text \<open>
  Claim C10. When \<open>new\<close> is set, \<^verbatim>\<open>deleteType\<close> only logs an error to the console:
  it opens no dialog, makes no request, does not navigate, and leaves the component's
  \<open>profile\<close> and \<open>new\<close> as they were.
\<close>

theorem deleteType_new_only_logs:
  "new c \<Longrightarrow>
     deleteType w c
       = \<lparr>effects = [ConsoleError ''Unable to delete new type''], comp = c, thrown = None\<rparr>
     \<and> \<not> list_ex is_dialog (effects (deleteType w c))
     \<and> \<not> list_ex is_request (effects (deleteType w c))
     \<and> \<not> list_ex is_navigation (effects (deleteType w c))
     \<and> profile (comp (deleteType w c)) = profile c
     \<and> new (comp (deleteType w c)) = new c"
  by (simp add: deleteType_def)

theorem deleteType_new_only_logs_witness:
  "deleteType example_world example_new
     = \<lparr>effects = [ConsoleError ''Unable to delete new type''], comp = example_new,
        thrown = None\<rparr>"
proof -
  have n: "new example_new" by (simp add: example_new_def)
  from deleteType_new_only_logs[OF n, of example_world] show ?thesis
    by simp
qed

end
